theory Spec2Isabelle
  imports Complex_Main "HOL-Library.Char_ord" "HOL-Library.List_Lexorder" "HOL-Library.Multiset"
    "HOL-Library.Monad_Syntax"
begin

section \<open>Personal finance tracker: the expense store of week4.py\<close>

text \<open>
  Python strings are modelled as \<^typ>\<open>string\<close>, one \<^typ>\<open>char\<close> per code point
  below 256; strings are compared as Python compares them, code point by code point
  (the lexicographic order of \<^verbatim>\<open>HOL-Library.List_Lexorder\<close> over
  \<^verbatim>\<open>HOL-Library.Char_ord\<close>). The backing CSV file is modelled by the sequence of
  rows that the csv module writes and reads back, each row a list of fields; the file
  is a sequence of whole rows, each ended by its line terminator, as the csv writer
  leaves it.
\<close>

subsection \<open>Data model\<close>

text \<open>
  \<^verbatim>\<open>Expense = namedtuple("Expense", ["id", "date", "amount", "category", "description"])\<close>.
  Every field holds a string, except that \<^verbatim>\<open>load\<close> stores \<^verbatim>\<open>None\<close> as the id of a row
  that is too short to reach the id column (\<open>id_e e = None\<close>).
\<close>

record expense =
  id_e :: "string option"
  date :: string
  amount :: string
  category :: string
  description :: string

type_synonym row = "string list"

text \<open>
  The tracker object: \<^verbatim>\<open>self.expenses\<close> and the content of the file named by
  \<^verbatim>\<open>self.data_file\<close>.
\<close>

record tracker =
  expenses :: "expense list"
  file_rows :: "row list"

datatype error = ValueError | TypeError | KeyError | AttributeError

definition header :: row where
  "header = [''id'', ''date'', ''amount'', ''category'', ''description'']"

text \<open>The row \<^verbatim>\<open>[e.id, e.date, e.amount, e.category, e.description]\<close> handed to the csv
  writer, which writes \<^verbatim>\<open>None\<close> as the empty field.\<close>

definition row_of :: "expense \<Rightarrow> row" where
  "row_of e =
     [(case id_e e of None \<Rightarrow> [] | Some i \<Rightarrow> i), date e, amount e, category e, description e]"


subsection \<open>Strings: \<^verbatim>\<open>str.strip\<close>, \<^verbatim>\<open>str.lower\<close>, \<^verbatim>\<open>str(n)\<close>\<close>

text \<open>
  The code points below 256 that \<^verbatim>\<open>str.strip()\<close> removes: TAB to CR, FS to US, the
  space, NEL and the no-break space.
\<close>

definition is_space :: "char \<Rightarrow> bool" where
  "is_space c =
     (let n = (of_char c :: int)
      in (9 \<le> n \<and> n \<le> 13) \<or> (28 \<le> n \<and> n \<le> 31) \<or> n = 32 \<or> n = 133 \<or> n = 160)"

definition strip :: "string \<Rightarrow> string" where
  "strip s = rev (dropWhile is_space (rev (dropWhile is_space s)))"

text \<open>
  \<^verbatim>\<open>str.lower()\<close> on code points below 256: the upper-case letters are A to Z and
  the Latin-1 letters 0xC0 to 0xDE without the multiplication sign 0xD7; each lies 32
  below its lower-case letter.
\<close>

definition lower_char :: "char \<Rightarrow> char" where
  "lower_char c =
     (let n = (of_char c :: int)
      in if (65 \<le> n \<and> n \<le> 90) \<or> (192 \<le> n \<and> n \<le> 222 \<and> n \<noteq> 215) then char_of (n + 32) else c)"

definition lower :: "string \<Rightarrow> string" where
  "lower s = map lower_char s"

definition is_digit :: "char \<Rightarrow> bool" where
  "is_digit c = (let n = (of_char c :: int) in 48 \<le> n \<and> n \<le> 57)"

definition digit_val :: "char \<Rightarrow> int" where
  "digit_val c = of_char c - 48"

definition digit_char :: "int \<Rightarrow> char" where
  "digit_char n = char_of (48 + n)"

text \<open>The value of a string of decimal digits, as \<^verbatim>\<open>int()\<close> reads it.\<close>

definition int_of_digits :: "string \<Rightarrow> int" where
  "int_of_digits s = foldl (\<lambda>acc c. 10 * acc + digit_val c) 0 s"

text \<open>The decimal digits of a number that is not negative, without leading zeros.\<close>

function digits :: "int \<Rightarrow> string" where
  "digits n = (if n < 10 then [digit_char n] else digits (n div 10) @ [digit_char (n mod 10)])"
  by pat_completeness auto
termination
  by (relation "measure nat") auto

declare digits.simps [simp del]

text \<open>\<^verbatim>\<open>str(n)\<close> for a Python int.\<close>

definition str_int :: "int \<Rightarrow> string" where
  "str_int n = (if n < 0 then ''-'' @ digits (- n) else digits n)"

text \<open>Zero padding to a width, as \<^verbatim>\<open>%02d\<close> does.\<close>

definition zfill :: "nat \<Rightarrow> string \<Rightarrow> string" where
  "zfill w s = replicate (w - length s) CHR ''0'' @ s"

subsection \<open>Dates: \<^verbatim>\<open>datetime.strptime\<close> and \<^verbatim>\<open>strftime\<close> with \<^verbatim>\<open>"%Y-%m-%d"\<close>\<close>

text \<open>
  Only the calendar date of a \<^verbatim>\<open>datetime\<close> is ever read by the program
  (\<^verbatim>\<open>.year\<close>, \<^verbatim>\<open>.month\<close>, and \<^verbatim>\<open>strftime\<close> with a date-only format).
\<close>

record pydate =
  year :: int
  month :: int
  day :: int

definition is_leap :: "int \<Rightarrow> bool" where
  "is_leap y = (y mod 4 = 0 \<and> (y mod 100 \<noteq> 0 \<or> y mod 400 = 0))"

definition days_in_month :: "int \<Rightarrow> int \<Rightarrow> int" where
  "days_in_month y m =
     (if m = 2 then (if is_leap y then 29 else 28)
      else if m = 4 \<or> m = 6 \<or> m = 9 \<or> m = 11 then 30 else 31)"

text \<open>What the \<^verbatim>\<open>datetime\<close> constructor accepts (MINYEAR = 1, MAXYEAR = 9999).\<close>

definition valid_date :: "int \<Rightarrow> int \<Rightarrow> int \<Rightarrow> bool" where
  "valid_date y m d =
     (1 \<le> y \<and> y \<le> 9999 \<and> 1 \<le> m \<and> m \<le> 12 \<and> 1 \<le> d \<and> d \<le> days_in_month y m)"

text \<open>
  \<^verbatim>\<open>_strptime\<close> turns the format into the regular expression
  \<^verbatim>\<open>(?P<Y>\d\d\d\d)-(?P<m>1[0-2]|0[1-9]|[1-9])-(?P<d>3[0-1]|[1-2]\d|0[1-9]|[1-9]| [1-9])\<close>
  and matches it at the start of the string. Each matcher below returns the ways its
  group can match a prefix, in the order the backtracking matcher tries them, with the
  group's value and the rest of the string.
\<close>

definition match_Y :: "string \<Rightarrow> (int \<times> string) list" where
  "match_Y s =
     (case s of
        a # b # c # d # rest \<Rightarrow>
          (if is_digit a \<and> is_digit b \<and> is_digit c \<and> is_digit d
           then [(int_of_digits [a, b, c, d], rest)] else [])
      | _ \<Rightarrow> [])"

definition match_lit :: "char \<Rightarrow> string \<Rightarrow> string list" where
  "match_lit x s = (case s of c # rest \<Rightarrow> (if c = x then [rest] else []) | [] \<Rightarrow> [])"

definition two_chars :: "(char \<Rightarrow> bool) \<Rightarrow> (char \<Rightarrow> bool) \<Rightarrow> string \<Rightarrow> (int \<times> string) list" where
  "two_chars P Q s =
     (case s of
        a # b # rest \<Rightarrow>
          (if P a \<and> Q b then [(int_of_digits (filter is_digit [a, b]), rest)] else [])
      | _ \<Rightarrow> [])"

definition one_char :: "(char \<Rightarrow> bool) \<Rightarrow> string \<Rightarrow> (int \<times> string) list" where
  "one_char P s =
     (case s of a # rest \<Rightarrow> (if P a then [(digit_val a, rest)] else []) | [] \<Rightarrow> [])"

definition in_range :: "char \<Rightarrow> char \<Rightarrow> char \<Rightarrow> bool" where
  "in_range lo hi c = ((of_char lo :: int) \<le> of_char c \<and> (of_char c :: int) \<le> of_char hi)"

definition match_m :: "string \<Rightarrow> (int \<times> string) list" where
  "match_m s =
     two_chars (\<lambda>c. c = CHR ''1'') (in_range CHR ''0'' CHR ''2'') s @
     two_chars (\<lambda>c. c = CHR ''0'') (in_range CHR ''1'' CHR ''9'') s @
     one_char (in_range CHR ''1'' CHR ''9'') s"

definition match_d :: "string \<Rightarrow> (int \<times> string) list" where
  "match_d s =
     two_chars (\<lambda>c. c = CHR ''3'') (in_range CHR ''0'' CHR ''1'') s @
     two_chars (in_range CHR ''1'' CHR ''2'') is_digit s @
     two_chars (\<lambda>c. c = CHR ''0'') (in_range CHR ''1'' CHR ''9'') s @
     one_char (in_range CHR ''1'' CHR ''9'') s @
     two_chars (\<lambda>c. c = CHR '' '') (in_range CHR ''1'' CHR ''9'') s"

text \<open>All matches of the whole expression, the preferred one first.\<close>

definition regex_matches :: "string \<Rightarrow> (int \<times> int \<times> int \<times> string) list" where
  "regex_matches s =
     do {
       (y, s1) \<leftarrow> match_Y s;
       s2 \<leftarrow> match_lit CHR ''-'' s1;
       (m, s3) \<leftarrow> match_m s2;
       s4 \<leftarrow> match_lit CHR ''-'' s3;
       (d, s5) \<leftarrow> match_d s4;
       [(y, m, d, s5)]
     }"

text \<open>
  \<^verbatim>\<open>datetime.strptime(s, "%Y-%m-%d")\<close>: no match, unconverted data after the match, and
  a date the calendar does not have all raise \<^verbatim>\<open>ValueError\<close>.
\<close>

definition strptime :: "string \<Rightarrow> error + pydate" where
  "strptime s =
     (case regex_matches s of
        [] \<Rightarrow> Inl ValueError
      | (y, m, d, rest) # _ \<Rightarrow>
          if rest \<noteq> [] then Inl ValueError
          else if valid_date y m d then Inr \<lparr>year = y, month = m, day = d\<rparr>
          else Inl ValueError)"

text \<open>
  \<^verbatim>\<open>d.strftime("%Y-%m-%d")\<close>. CPython hands the format to the C library. On Linux
  (glibc) \<^verbatim>\<open>%Y\<close> is the year as a plain decimal number, with no padding, so that a
  year below 1000 has fewer than four digits (\<^verbatim>\<open>datetime(5, 1, 1)\<close> gives \<^verbatim>\<open>5-01-01\<close>);
  \<^verbatim>\<open>%m\<close> and \<^verbatim>\<open>%d\<close> are padded to two digits.
\<close>

definition strftime :: "pydate \<Rightarrow> string" where
  "strftime d =
     str_int (year d) @ ''-'' @ zfill 2 (str_int (month d)) @ ''-'' @ zfill 2 (str_int (day d))"

subsection \<open>Floats: \<^verbatim>\<open>float(s)\<close>, \<^verbatim>\<open>+\<close>, \<^verbatim>\<open>round(x, 2)\<close> and \<^verbatim>\<open>f"{x:.2f}"\<close>\<close>

text \<open>
  A Python float is an IEEE 754 binary64 value. It is modelled by its exact value: a
  rational for a finite number (\<open>Finite 0\<close> is \<open>+0.0\<close>), and one constructor each for
  \<open>-0.0\<close>, the infinities and NaN. Every operation computes the exact rational result
  and rounds it to the nearest binary64 value, ties to even, as the hardware does.
\<close>

datatype pyfloat = Finite rat | NegZero | PosInf | NegInf | NaN

definition round_half_even :: "rat \<Rightarrow> int" where
  "round_half_even x =
     (let f = \<lfloor>x\<rfloor>; r = x - of_int f
      in if r < 1 / 2 then f else if 1 / 2 < r then f + 1 else if even f then f else f + 1)"

definition pow2 :: "int \<Rightarrow> rat" where
  "pow2 k = (if 0 \<le> k then 2 ^ nat k else 1 / 2 ^ nat (- k))"

text \<open>The number of binary digits of a number that is not negative (\<^verbatim>\<open>int.bit_length\<close>).\<close>

function bit_length :: "int \<Rightarrow> int" where
  "bit_length n = (if n \<le> 0 then 0 else 1 + bit_length (n div 2))"
  by pat_completeness auto
termination
  by (relation "measure nat") auto

declare bit_length.simps [simp del]

text \<open>
  The binary exponent of a positive rational, \<open>pow2 e \<le> q < pow2 (e + 1)\<close>: one less
  than the bit length of the integer part when \<open>1 \<le> q\<close>, and otherwise the negated bit
  length of \<open>\<lceil>1 / q\<rceil> - 1\<close>.
\<close>

definition ilog2 :: "rat \<Rightarrow> int" where
  "ilog2 q =
     (if 1 \<le> q then bit_length \<lfloor>q\<rfloor> - 1 else - bit_length (\<lceil>1 / q\<rceil> - 1))"

text \<open>
  The binary64 value nearest to a rational: 53 significant bits, the least exponent of
  the last bit is \<open>-1074\<close> (subnormal numbers), and a result that rounds to zero keeps
  the sign. The rounded magnitude is \<open>m * pow2 p\<close>; it is \<open>2 ^ 1024\<close> or more, and the
  result an infinity, exactly when \<open>m\<close> has more than \<open>1024 - p\<close> bits.
\<close>

definition round_double :: "rat \<Rightarrow> pyfloat" where
  "round_double q =
     (if q = 0 then Finite 0
      else
        let a = \<bar>q\<bar>;
            p = max (ilog2 a - 52) (- 1074);
            m = round_half_even (a / pow2 p)
        in if 1024 < bit_length m + p then (if q < 0 then NegInf else PosInf)
           else if m = 0 then (if q < 0 then NegZero else Finite 0)
           else Finite (if q < 0 then - (of_int m * pow2 p) else of_int m * pow2 p))"

text \<open>
  \<^verbatim>\<open>float(s)\<close> for a string. CPython first checks the underscores of the whole string
  (each one needs a digit before it and a digit after it) and removes them, then strips
  white space (TAB to CR, the space, and NEL and the no-break space, which it first
  rewrites to spaces), then reads an optional sign followed by a decimal number
  (digits with an optional point and an optional exponent) or by \<^verbatim>\<open>inf\<close>,
  \<^verbatim>\<open>infinity\<close> or \<^verbatim>\<open>nan\<close> in any case. Anything else raises \<^verbatim>\<open>ValueError\<close>.
\<close>

fun underscores_ok :: "char \<Rightarrow> string \<Rightarrow> bool" where
  "underscores_ok prev [] = (prev \<noteq> CHR ''_'')"
| "underscores_ok prev (c # cs) =
     (if c = CHR ''_'' then is_digit prev \<and> underscores_ok c cs
      else if prev = CHR ''_'' \<and> \<not> is_digit c then False
      else underscores_ok c cs)"

definition is_float_space :: "char \<Rightarrow> bool" where
  "is_float_space c =
     (let n = (of_char c :: int) in (9 \<le> n \<and> n \<le> 13) \<or> n = 32 \<or> n = 133 \<or> n = 160)"

definition float_strip :: "string \<Rightarrow> string" where
  "float_strip s = rev (dropWhile is_float_space (rev (dropWhile is_float_space s)))"

text \<open>An optional sign: whether it is a minus, and the rest.\<close>

definition split_sign :: "string \<Rightarrow> bool \<times> string" where
  "split_sign s =
     (case s of
        c # rest \<Rightarrow>
          (if c = CHR ''-'' then (True, rest) else if c = CHR ''+'' then (False, rest)
           else (False, s))
      | [] \<Rightarrow> (False, s))"

text \<open>
  The exponent part: \<^verbatim>\<open>e\<close> or \<^verbatim>\<open>E\<close>, an optional sign and at least one digit. When
  the digits are missing the number ends before the \<^verbatim>\<open>e\<close>. The result is the
  exponent and what follows the number.
\<close>

definition parse_exponent :: "string \<Rightarrow> int \<times> string" where
  "parse_exponent s =
     (case s of
        c # rest \<Rightarrow>
          (if c = CHR ''e'' \<or> c = CHR ''E'' then
             (let (neg, t) = split_sign rest; ds = takeWhile is_digit t
              in if ds = [] then (0, s)
                 else ((if neg then - int_of_digits ds else int_of_digits ds),
                       dropWhile is_digit t))
           else (0, s))
      | [] \<Rightarrow> (0, s))"

definition pow10 :: "int \<Rightarrow> rat" where
  "pow10 k = (if 0 \<le> k then 10 ^ nat k else 1 / 10 ^ nat (- k))"

text \<open>An unsigned decimal number that fills the whole string, as its exact value.\<close>

definition parse_number :: "string \<Rightarrow> rat option" where
  "parse_number s =
     (let ip = takeWhile is_digit s;
          r1 = dropWhile is_digit s;
          fp = (case r1 of c # t \<Rightarrow> (if c = CHR ''.'' then takeWhile is_digit t else []) | [] \<Rightarrow> []);
          r2 = (case r1 of c # t \<Rightarrow> (if c = CHR ''.'' then dropWhile is_digit t else r1) | [] \<Rightarrow> r1)
      in if ip = [] \<and> fp = [] then None
         else
           let (ex, r3) = parse_exponent r2
           in if r3 \<noteq> [] then None
              else Some (of_int (int_of_digits (ip @ fp)) * pow10 (ex - int (length fp))))"

definition py_float :: "string \<Rightarrow> error + pyfloat" where
  "py_float s =
     (if \<not> underscores_ok (CHR 0x00) s then Inl ValueError
      else
        let (neg, u) = split_sign (float_strip (filter (\<lambda>c. c \<noteq> CHR ''_'') s))
        in case parse_number u of
             Some q \<Rightarrow>
               Inr (if q = 0 then (if neg then NegZero else Finite 0)
                    else round_double (if neg then - q else q))
           | None \<Rightarrow>
               if lower u = ''inf'' \<or> lower u = ''infinity'' then Inr (if neg then NegInf else PosInf)
               else if lower u = ''nan'' then Inr NaN
               else Inl ValueError)"

text \<open>
  \<^verbatim>\<open>f"{x:.2f}"\<close>: the exact value rounded to two decimals, ties to even; the sign is
  kept when the digits are all zero.
\<close>

definition format_2f :: "pyfloat \<Rightarrow> string" where
  "format_2f x =
     (case x of
        NaN \<Rightarrow> ''nan''
      | PosInf \<Rightarrow> ''inf''
      | NegInf \<Rightarrow> ''-inf''
      | NegZero \<Rightarrow> ''-0.00''
      | Finite q \<Rightarrow>
          (let n = round_half_even (\<bar>q\<bar> * 100)
           in (if q < 0 then ''-'' else []) @ digits (n div 100) @ ''.'' @
              zfill 2 (digits (n mod 100))))"

text \<open>
  \<^verbatim>\<open>round(x, 2)\<close>: CPython rounds the exact value to two decimals, ties to even, and
  returns the float nearest to that decimal; infinities and NaN are returned as they
  are.
\<close>

definition round2 :: "pyfloat \<Rightarrow> pyfloat" where
  "round2 x =
     (case x of
        Finite q \<Rightarrow>
          (let n = round_half_even (\<bar>q\<bar> * 100)
           in if n = 0 then (if q < 0 then NegZero else Finite 0)
              else round_double ((if q < 0 then - 1 else 1) * of_int n / 100))
      | _ \<Rightarrow> x)"

text \<open>Float addition.\<close>

fun py_add :: "pyfloat \<Rightarrow> pyfloat \<Rightarrow> pyfloat" where
  "py_add NaN _ = NaN"
| "py_add _ NaN = NaN"
| "py_add PosInf NegInf = NaN"
| "py_add NegInf PosInf = NaN"
| "py_add PosInf _ = PosInf"
| "py_add _ PosInf = PosInf"
| "py_add NegInf _ = NegInf"
| "py_add _ NegInf = NegInf"
| "py_add NegZero y = y"
| "py_add (Finite a) NegZero = Finite a"
| "py_add (Finite a) (Finite b) = round_double (a + b)"



subsection \<open>The store: construction, \<^verbatim>\<open>load\<close>, \<^verbatim>\<open>add_expense\<close>, \<^verbatim>\<open>delete_expense\<close>\<close>

text \<open>
  \<^verbatim>\<open>csv.DictReader\<close>: the first row of the file gives the field names; every later row
  that is not blank becomes a dictionary. A field name beyond the end of a short row is
  bound to \<^verbatim>\<open>None\<close> (the \<^verbatim>\<open>restval\<close>), and of two equal field names the later one
  wins. A dictionary is a map from keys to cells, a cell being \<open>Some s\<close> for the
  string \<open>s\<close> and \<open>None\<close> for Python's \<^verbatim>\<open>None\<close>.
\<close>

type_synonym csv_dict = "string \<rightharpoonup> string option"

definition dict_row :: "row \<Rightarrow> row \<Rightarrow> csv_dict" where
  "dict_row fieldnames r =
     map_of (rev (zip fieldnames
                    (map Some r @ replicate (length fieldnames - length r) None)))"

definition DictReader :: "row list \<Rightarrow> csv_dict list" where
  "DictReader rows =
     (case rows of
        [] \<Rightarrow> []
      | fieldnames # rest \<Rightarrow> map (dict_row fieldnames) (filter (\<lambda>r. r \<noteq> []) rest))"

text \<open>\<^verbatim>\<open>r[key]\<close> raises \<^verbatim>\<open>KeyError\<close> for a missing key; \<^verbatim>\<open>r.get(key, "")\<close> does not.\<close>

definition getitem :: "csv_dict \<Rightarrow> string \<Rightarrow> error + string option" where
  "getitem r k = (case r k of None \<Rightarrow> Inl KeyError | Some v \<Rightarrow> Inr v)"

definition get_default :: "csv_dict \<Rightarrow> string \<Rightarrow> string option" where
  "get_default r k = (case r k of None \<Rightarrow> Some [] | Some v \<Rightarrow> v)"

text \<open>What the body of the loop of \<^verbatim>\<open>load\<close> does with one row.\<close>

datatype 'a step = Continue | Raise error | Append 'a

text \<open>
  The two \<^verbatim>\<open>try\<close> blocks catch every exception of \<^verbatim>\<open>float(r["amount"])\<close> and of
  \<^verbatim>\<open>datetime.strptime(date_str, DateFmt)\<close>, also the \<^verbatim>\<open>KeyError\<close> of a missing amount
  column and the \<^verbatim>\<open>TypeError\<close> of a \<^verbatim>\<open>None\<close> cell. Nothing catches the \<^verbatim>\<open>KeyError\<close> of
  \<^verbatim>\<open>r["date"]\<close> and \<^verbatim>\<open>r["id"]\<close>, nor the \<^verbatim>\<open>AttributeError\<close> of \<^verbatim>\<open>None.strip()\<close> when
  the category or the description cell is \<^verbatim>\<open>None\<close>.
\<close>

definition load_row :: "csv_dict \<Rightarrow> expense step" where
  "load_row r =
     (case getitem r ''amount'' of
        Inl _ \<Rightarrow> Continue
      | Inr None \<Rightarrow> Continue
      | Inr (Some a) \<Rightarrow>
          (case py_float a of
             Inl _ \<Rightarrow> Continue
           | Inr amt \<Rightarrow>
               (case getitem r ''date'' of
                  Inl e \<Rightarrow> Raise e
                | Inr None \<Rightarrow> Continue
                | Inr (Some date_str) \<Rightarrow>
                    (case strptime date_str of
                       Inl _ \<Rightarrow> Continue
                     | Inr _ \<Rightarrow>
                         (case getitem r ''id'' of
                            Inl e \<Rightarrow> Raise e
                          | Inr i \<Rightarrow>
                              (case get_default r ''category'' of
                                 None \<Rightarrow> Raise AttributeError
                               | Some c \<Rightarrow>
                                   (case get_default r ''description'' of
                                      None \<Rightarrow> Raise AttributeError
                                    | Some d \<Rightarrow>
                                        Append \<lparr>id_e = i, date = date_str,
                                                amount = format_2f amt, category = strip c,
                                                description = strip d\<rparr>)))))))"

text \<open>
  The loop of \<^verbatim>\<open>load\<close> over the dictionaries, with \<^verbatim>\<open>self.expenses\<close> as accumulator. An
  exception leaves the loop; the expenses appended so far stay in \<^verbatim>\<open>self.expenses\<close>.
\<close>

fun load_loop :: "csv_dict list \<Rightarrow> expense list \<Rightarrow> error option \<times> expense list" where
  "load_loop [] acc = (None, acc)"
| "load_loop (r # rs) acc =
     (case load_row r of
        Continue \<Rightarrow> load_loop rs acc
      | Raise e \<Rightarrow> (Some e, acc)
      | Append x \<Rightarrow> load_loop rs (acc @ [x]))"

text \<open>\<^verbatim>\<open>load\<close>: the result is \<open>None\<close> when it returns and \<open>Some e\<close> when it raises \<open>e\<close>.\<close>

definition load :: "tracker \<Rightarrow> error option \<times> tracker" where
  "load s =
     (let (res, exps) = load_loop (DictReader (file_rows s)) []
      in (res, s\<lparr>expenses := exps\<rparr>))"

text \<open>
  \<^verbatim>\<open>_ensure_file\<close> on a file system where the data file is absent (\<open>None\<close>) or holds the
  given rows, and the constructor \<^verbatim>\<open>__init__\<close>.
\<close>

definition ensure_file :: "row list option \<Rightarrow> row list" where
  "ensure_file disk = (case disk of None \<Rightarrow> [header] | Some rows \<Rightarrow> rows)"

definition init :: "row list option \<Rightarrow> error option \<times> tracker" where
  "init disk = load \<lparr>expenses = [], file_rows = ensure_file disk\<rparr>"

definition append_to_file :: "expense \<Rightarrow> tracker \<Rightarrow> tracker" where
  "append_to_file e s = s\<lparr>file_rows := file_rows s @ [row_of e]\<rparr>"

text \<open>
  \<^verbatim>\<open>add_expense(amount, category, date, description)\<close>. The two values the method takes
  from its environment are parameters: \<open>today\<close>, the date of \<^verbatim>\<open>datetime.today()\<close>, and
  \<open>uuid\<close>, the string of \<^verbatim>\<open>uuid.uuid4()\<close>. The amount is a string, as the menu passes
  it. Both \<^verbatim>\<open>except\<close> clauses re-raise a \<^verbatim>\<open>ValueError\<close>.
\<close>

definition add_expense ::
  "pydate \<Rightarrow> string \<Rightarrow> string \<Rightarrow> string \<Rightarrow> string option \<Rightarrow> string \<Rightarrow> tracker
     \<Rightarrow> (error + expense) \<times> tracker" where
  "add_expense today uuid amount' category' date' description' s =
     (case (case date' of None \<Rightarrow> Inr today | Some d \<Rightarrow> strptime d) of
        Inl _ \<Rightarrow> (Inl ValueError, s)
      | Inr date_obj \<Rightarrow>
          (case py_float amount' of
             Inl _ \<Rightarrow> (Inl ValueError, s)
           | Inr amt \<Rightarrow>
               (let new = \<lparr>id_e = Some uuid, date = strftime date_obj, amount = format_2f amt,
                           category = strip category', description = strip description'\<rparr>
                in (Inr new, append_to_file new (s\<lparr>expenses := expenses s @ [new]\<rparr>)))))"

text \<open>
  \<^verbatim>\<open>delete_expense\<close>: the list comprehension is a filter; the file is reopened in mode
  \<^verbatim>\<open>"w"\<close> (truncated) and receives the header and one row per remaining expense, but only
  when the length changed.
\<close>

definition delete_expense :: "string \<Rightarrow> tracker \<Rightarrow> bool \<times> tracker" where
  "delete_expense expense_id s =
     (let before = length (expenses s);
          s1 = s\<lparr>expenses := filter (\<lambda>e. id_e e \<noteq> Some expense_id) (expenses s)\<rparr>;
          after = length (expenses s1)
      in if before = after then (False, s1)
         else (True, s1\<lparr>file_rows := header # map row_of (expenses s1)\<rparr>))"

subsection \<open>Queries: \<^verbatim>\<open>list_expenses\<close> and \<^verbatim>\<open>monthly_report\<close>\<close>

text \<open>
  The loop of \<^verbatim>\<open>list_expenses\<close>, with \<^verbatim>\<open>results\<close> as accumulator. The date of every
  expense is parsed before any filter is looked at, and a \<^verbatim>\<open>ValueError\<close> of
  \<^verbatim>\<open>strptime\<close> is not caught.
\<close>

fun list_loop ::
  "int option \<Rightarrow> int option \<Rightarrow> string option \<Rightarrow> expense list \<Rightarrow> expense list
     \<Rightarrow> error + expense list" where
  "list_loop y m c [] results = Inr results"
| "list_loop y m c (e # es) results =
     (case strptime (date e) of
        Inl err \<Rightarrow> Inl err
      | Inr dt \<Rightarrow>
          if (case y of None \<Rightarrow> False | Some yv \<Rightarrow> year dt \<noteq> yv) then list_loop y m c es results
          else if (case m of None \<Rightarrow> False | Some mv \<Rightarrow> month dt \<noteq> mv)
            then list_loop y m c es results
          else if (case c of None \<Rightarrow> False | Some cv \<Rightarrow> lower (category e) \<noteq> lower cv)
            then list_loop y m c es results
          else list_loop y m c es (results @ [e]))"

text \<open>
  \<^verbatim>\<open>results.sort(key=lambda x: x.date, reverse=True)\<close>. The sort of Python is stable,
  with \<^verbatim>\<open>reverse=True\<close> too: it reverses the list, sorts it stably in ascending order
  and reverses it again. \<^const>\<open>sort_key\<close> is a stable sort.
\<close>

definition sort_date_desc :: "expense list \<Rightarrow> expense list" where
  "sort_date_desc xs = rev (sort_key date (rev xs))"

text \<open>The slice \<^verbatim>\<open>xs[:n]\<close>; a negative \<open>n\<close> counts from the end.\<close>

definition slice_to :: "'a list \<Rightarrow> int \<Rightarrow> 'a list" where
  "slice_to xs n = (if 0 \<le> n then take (nat n) xs else take (nat (int (length xs) + n)) xs)"

text \<open>\<^verbatim>\<open>if limit:\<close> is false for \<^verbatim>\<open>None\<close> and for \<^verbatim>\<open>0\<close>.\<close>

definition list_expenses ::
  "int option \<Rightarrow> int option \<Rightarrow> string option \<Rightarrow> int option \<Rightarrow> tracker \<Rightarrow> error + expense list" where
  "list_expenses y m c limit s =
     (case list_loop y m c (expenses s) [] of
        Inl err \<Rightarrow> Inl err
      | Inr results \<Rightarrow>
          (let sorted_results = sort_date_desc results
           in case limit of
                None \<Rightarrow> Inr sorted_results
              | Some n \<Rightarrow> if n \<noteq> 0 then Inr (slice_to sorted_results n) else Inr sorted_results))"

text \<open>
  One entry \<^verbatim>\<open>{"amount": ..., "count": ...}\<close> of the totals, and the report dictionary.
  A Python dictionary keeps its keys in the order of their first insertion, so the
  categories are an association list with distinct keys in that order.
\<close>

record bucket =
  amount_of :: pyfloat
  count_of :: int

record report =
  report_year :: int
  report_month :: int
  categories :: "(string \<times> bucket) list"
  total_spent :: pyfloat

text \<open>
  \<^verbatim>\<open>totals[cat]["amount"] += amt; totals[cat]["count"] += 1\<close> on the
  \<^verbatim>\<open>defaultdict\<close>, whose new entries start at \<^verbatim>\<open>0.0\<close> and \<^verbatim>\<open>0\<close>.
\<close>

fun bump :: "string \<Rightarrow> pyfloat \<Rightarrow> (string \<times> bucket) list \<Rightarrow> (string \<times> bucket) list" where
  "bump cat amt [] = [(cat, \<lparr>amount_of = py_add (Finite 0) amt, count_of = 0 + 1\<rparr>)]"
| "bump cat amt ((k, v) # rest) =
     (if k = cat then (k, \<lparr>amount_of = py_add (amount_of v) amt, count_of = count_of v + 1\<rparr>) # rest
      else (k, v) # bump cat amt rest)"

text \<open>The loop of \<^verbatim>\<open>monthly_report\<close>; \<^verbatim>\<open>float(e.amount)\<close> may raise \<^verbatim>\<open>ValueError\<close>.\<close>

fun report_loop ::
  "expense list \<Rightarrow> (string \<times> bucket) list \<Rightarrow> pyfloat \<Rightarrow> error + (string \<times> bucket) list \<times> pyfloat" where
  "report_loop [] totals spent = Inr (totals, spent)"
| "report_loop (e # es) totals spent =
     (case py_float (amount e) of
        Inl err \<Rightarrow> Inl err
      | Inr amt \<Rightarrow> report_loop es (bump (category e) amt totals) (py_add spent amt))"

definition monthly_report :: "int \<Rightarrow> int \<Rightarrow> tracker \<Rightarrow> error + report" where
  "monthly_report y m s =
     (case list_expenses (Some y) (Some m) None None s of
        Inl err \<Rightarrow> Inl err
      | Inr es \<Rightarrow>
          (case report_loop es [] (Finite 0) of
             Inl err \<Rightarrow> Inl err
           | Inr (totals, spent) \<Rightarrow>
               Inr \<lparr>report_year = y, report_month = m,
                    categories =
                      map (\<lambda>(cat, vals). (cat, \<lparr>amount_of = round2 (amount_of vals),
                                                count_of = count_of vals\<rparr>)) totals,
                    total_spent = round2 spent\<rparr>))"

subsection \<open>Exports: \<^verbatim>\<open>export_report_csv\<close> and \<^verbatim>\<open>export_report_text\<close>\<close>

text \<open>
  Both exporters write one file and return its name. The model returns the name
  together with what is written: the rows handed to \<^verbatim>\<open>csv.writer.writerows\<close>, and the
  text handed to \<^verbatim>\<open>f.write\<close>.
\<close>

definition export_report_csv :: "report \<Rightarrow> string \<Rightarrow> string \<times> row list" where
  "export_report_csv rep filename =
     (let rows0 = [[''Category'', ''Total Amount'', ''Count'']];
          rows1 = fold (\<lambda>(cat, vals) rows.
                          rows @ [[cat, format_2f (amount_of vals), str_int (count_of vals)]])
                       (categories rep) rows0;
          rows2 = rows1 @ [[]];
          rows3 = rows2 @ [[''Total'', format_2f (total_spent rep), []]]
      in (filename, rows3))"
















subsection \<open>The specification's own notions\<close>

text \<open>
  An amount "formatted to exactly 2 decimal places": an optional minus sign, at least
  one digit, a point and exactly two digits.
\<close>

definition two_decimals :: "string \<Rightarrow> bool" where
  "two_decimals s =
     (let u = (case s of c # rest \<Rightarrow> (if c = CHR ''-'' then rest else s) | [] \<Rightarrow> s);
          ip = takeWhile is_digit u;
          r = dropWhile is_digit u
      in ip \<noteq> [] \<and>
         (case r of
            [p, a, b] \<Rightarrow> p = CHR ''.'' \<and> is_digit a \<and> is_digit b
          | _ \<Rightarrow> False))"

text \<open>
  "Parses as a decimal number": an optional sign, then digits with at most one point
  among them, and at least one digit.
\<close>

definition decimal_number :: "string \<Rightarrow> bool" where
  "decimal_number s =
     (let u = snd (split_sign s);
          ip = takeWhile is_digit u;
          r = dropWhile is_digit u;
          fp = (case r of c # t \<Rightarrow> (if c = CHR ''.'' then t else r) | [] \<Rightarrow> [])
      in \<not> (ip = [] \<and> fp = []) \<and> list_all is_digit fp)"

text \<open>
  A record matches the filters of \<^verbatim>\<open>listExpenses\<close>: its date parses, the parsed date
  has the given year and the given month, and its category equals the given one up to
  case; a filter that is omitted matches everything.
\<close>

definition matches_filters :: "int option \<Rightarrow> int option \<Rightarrow> string option \<Rightarrow> expense \<Rightarrow> bool" where
  "matches_filters y m c e =
     (case strptime (date e) of
        Inl _ \<Rightarrow> False
      | Inr dt \<Rightarrow>
          (case y of None \<Rightarrow> True | Some yv \<Rightarrow> year dt = yv) \<and>
          (case m of None \<Rightarrow> True | Some mv \<Rightarrow> month dt = mv) \<and>
          (case c of None \<Rightarrow> True | Some cv \<Rightarrow> lower (category e) = lower cv))"

text \<open>
  Parsing the rows of the tabular export back: after the header row, every row up to
  the blank row is a category, its total read by \<^verbatim>\<open>float\<close> and its count a string of
  digits.
\<close>

definition read_count :: "string \<Rightarrow> int option" where
  "read_count s = (if s \<noteq> [] \<and> list_all is_digit s then Some (int_of_digits s) else None)"

definition parse_category_row :: "row \<Rightarrow> (string \<times> bucket) option" where
  "parse_category_row r =
     (case r of
        [cat, a, n] \<Rightarrow>
          (case py_float a of
             Inl _ \<Rightarrow> None
           | Inr x \<Rightarrow>
               (case read_count n of
                  None \<Rightarrow> None
                | Some k \<Rightarrow> Some (cat, \<lparr>amount_of = x, count_of = k\<rparr>)))
      | _ \<Rightarrow> None)"

definition parse_tabular :: "row list \<Rightarrow> (string \<times> bucket) list option" where
  "parse_tabular rows =
     (case rows of
        [] \<Rightarrow> None
      | h # rest \<Rightarrow> those (map parse_category_row (takeWhile (\<lambda>r. r \<noteq> []) rest)))"

text \<open>
  Two totals are within 0.01 of each other: neither is NaN, and they are the same
  value or two numbers that differ by at most one hundredth.
\<close>

definition within_cent :: "pyfloat \<Rightarrow> pyfloat \<Rightarrow> bool" where
  "within_cent x y =
     (x \<noteq> NaN \<and> y \<noteq> NaN \<and>
      (x = y \<or>
       (case (x, y) of
          (Finite a, Finite b) \<Rightarrow> \<bar>a - b\<bar> \<le> 1 / 100
        | (Finite a, NegZero) \<Rightarrow> \<bar>a\<bar> \<le> 1 / 100
        | (NegZero, Finite b) \<Rightarrow> \<bar>b\<bar> \<le> 1 / 100
        | _ \<Rightarrow> False)))"

text \<open>The same categories in the same order, with equal counts and totals within 0.01.\<close>

definition same_totals :: "(string \<times> bucket) list \<Rightarrow> (string \<times> bucket) list \<Rightarrow> bool" where
  "same_totals xs ys =
     list_all2 (\<lambda>x y. fst x = fst y \<and> count_of (snd x) = count_of (snd y) \<and>
                      within_cent (amount_of (snd x)) (amount_of (snd y))) xs ys"

section \<open>Properties\<close>

subsection \<open>Deletion\<close>

lemma length_filter_eq_iff: "length (filter P xs) = length xs \<longleftrightarrow> (\<forall>x\<in>set xs. P x)"
proof
  assume "length (filter P xs) = length xs"
  then have "filter P xs = xs"
    by (metis length_filter_less less_irrefl filter_True)
  then show "\<forall>x\<in>set xs. P x"
    by (metis filter_id_conv)
next
  assume "\<forall>x\<in>set xs. P x"
  then show "length (filter P xs) = length xs" by simp
qed

text \<open>
  C2. \<^verbatim>\<open>delete_expense(id)\<close> returns \<^verbatim>\<open>True\<close> exactly when some record carries that id.
  When it returns \<^verbatim>\<open>True\<close>, memory holds the other records in their old order, none of
  them with that id, and the file is the header followed by the rows of exactly these
  records. When it returns \<^verbatim>\<open>False\<close>, memory and file are what they were.
\<close>

theorem delete_expense_spec:
  "(fst (delete_expense i s) \<longleftrightarrow> (\<exists>e\<in>set (expenses s). id_e e = Some i)) \<and>
   (fst (delete_expense i s) \<longrightarrow>
      expenses (snd (delete_expense i s)) = filter (\<lambda>e. id_e e \<noteq> Some i) (expenses s) \<and>
      (\<forall>e\<in>set (expenses (snd (delete_expense i s))). id_e e \<noteq> Some i) \<and>
      file_rows (snd (delete_expense i s)) =
        header # map row_of (expenses (snd (delete_expense i s)))) \<and>
   (\<not> fst (delete_expense i s) \<longrightarrow> snd (delete_expense i s) = s)"
proof -
  let ?P = "\<lambda>e. id_e e \<noteq> Some i"
  show ?thesis
  proof (cases "length (filter ?P (expenses s)) = length (expenses s)")
    case True
    then have all: "\<forall>e\<in>set (expenses s). ?P e"
      by (simp only: length_filter_eq_iff)
    then have "filter ?P (expenses s) = expenses s" by simp
    with True all show ?thesis
      by (simp add: delete_expense_def Let_def)
  next
    case False
    then have ex: "\<exists>e\<in>set (expenses s). id_e e = Some i"
      by (simp only: length_filter_eq_iff) blast
    from False ex show ?thesis
      by (auto simp: delete_expense_def Let_def)
  qed
qed

theorem delete_expense_spec_witness:
  "delete_expense ''a1''
     \<lparr>expenses = [\<lparr>id_e = Some ''a1'', date = ''2024-03-01'', amount = ''5.00'',
                    category = ''Food'', description = ''''\<rparr>,
                   \<lparr>id_e = Some ''b2'', date = ''2024-03-02'', amount = ''7.50'',
                    category = ''Bills'', description = ''x''\<rparr>],
      file_rows = [header, [''a1'', ''2024-03-01'', ''5.00'', ''Food'', ''''],
                   [''b2'', ''2024-03-02'', ''7.50'', ''Bills'', ''x'']]\<rparr>
   = (True,
      \<lparr>expenses = [\<lparr>id_e = Some ''b2'', date = ''2024-03-02'', amount = ''7.50'',
                    category = ''Bills'', description = ''x''\<rparr>],
       file_rows = [header, [''b2'', ''2024-03-02'', ''7.50'', ''Bills'', ''x'']]\<rparr>)"
  using delete_expense_spec [of "''a1''"
     "\<lparr>expenses = [\<lparr>id_e = Some ''a1'', date = ''2024-03-01'', amount = ''5.00'',
                    category = ''Food'', description = ''''\<rparr>,
                   \<lparr>id_e = Some ''b2'', date = ''2024-03-02'', amount = ''7.50'',
                    category = ''Bills'', description = ''x''\<rparr>],
      file_rows = [header, [''a1'', ''2024-03-01'', ''5.00'', ''Food'', ''''],
                   [''b2'', ''2024-03-02'', ''7.50'', ''Bills'', ''x'']]\<rparr>"]
  by (simp add: delete_expense_def Let_def row_of_def)

subsection \<open>Adding\<close>

text \<open>
  C1. A malformed amount is not always refused. \<^verbatim>\<open>float("inf")\<close> is a float, so
  \<^verbatim>\<open>add_expense\<close> with the amount \<^verbatim>\<open>"inf"\<close>, which is not a decimal number, raises
  nothing: it returns a record and appends it to memory and to the file. The two
  examples of the specification, the amount \<^verbatim>\<open>"abc"\<close> and the date \<^verbatim>\<open>"2024-13-01"\<close>, do raise \<^verbatim>\<open>ValueError\<close>
  and leave the tracker as it was.
\<close>

theorem add_inf_is_accepted:
  "\<not> decimal_number ''inf'' \<and>
   add_expense \<lparr>year = 2024, month = 5, day = 17\<rparr> ''u1'' ''inf'' ''Food''
     (Some ''2024-03-01'') ''lunch'' \<lparr>expenses = [], file_rows = [header]\<rparr>
     = (Inr \<lparr>id_e = Some ''u1'', date = ''2024-03-01'', amount = ''inf'', category = ''Food'',
             description = ''lunch''\<rparr>,
        \<lparr>expenses = [\<lparr>id_e = Some ''u1'', date = ''2024-03-01'', amount = ''inf'',
                       category = ''Food'', description = ''lunch''\<rparr>],
         file_rows = [header, [''u1'', ''2024-03-01'', ''inf'', ''Food'', ''lunch'']]\<rparr>) \<and>
   \<not> decimal_number ''abc'' \<and>
   add_expense \<lparr>year = 2024, month = 5, day = 17\<rparr> ''u1'' ''abc'' ''Food''
     (Some ''2024-03-01'') ''lunch'' \<lparr>expenses = [], file_rows = [header]\<rparr>
     = (Inl ValueError, \<lparr>expenses = [], file_rows = [header]\<rparr>) \<and>
   add_expense \<lparr>year = 2024, month = 5, day = 17\<rparr> ''u1'' ''12.50'' ''Food''
     (Some ''2024-13-01'') ''lunch'' \<lparr>expenses = [], file_rows = [header]\<rparr>
     = (Inl ValueError, \<lparr>expenses = [], file_rows = [header]\<rparr>) \<and>
   decimal_number ''12.50'' \<and> decimal_number ''-3'' \<and> decimal_number ''.5''"
  by code_simp

text \<open>
  What \<^verbatim>\<open>add_expense\<close> does guarantee: whenever \<^verbatim>\<open>strptime\<close> rejects the date or
  \<^verbatim>\<open>float\<close> rejects the amount, it raises \<^verbatim>\<open>ValueError\<close> before its first mutation.
\<close>

lemma add_expense_raises:
  assumes "(\<exists>d. date' = Some d \<and> isl (strptime d)) \<or> isl (py_float amount')"
  shows "add_expense today uuid amount' category' date' description' s = (Inl ValueError, s)"
  using assms
  by (auto simp: add_expense_def isl_def split: sum.splits option.splits)

text \<open>
  C7. Well-formedness of the stored amounts is not an invariant. \<^verbatim>\<open>float("nan")\<close> is a
  float, so \<^verbatim>\<open>add_expense\<close> on the freshly constructed tracker accepts the amount
  \<^verbatim>\<open>"nan"\<close> and stores the string \<^verbatim>\<open>nan\<close>, which is not a number with two decimals
  (the same happens with \<^verbatim>\<open>inf\<close>, and in \<^verbatim>\<open>load\<close>).
\<close>

theorem add_nan_breaks_amount_format:
  "init None = (None, \<lparr>expenses = [], file_rows = [header]\<rparr>) \<and>
   add_expense \<lparr>year = 2024, month = 5, day = 17\<rparr> ''u1'' ''nan'' ''Food''
     (Some ''2024-03-01'') '''' \<lparr>expenses = [], file_rows = [header]\<rparr>
     = (Inr \<lparr>id_e = Some ''u1'', date = ''2024-03-01'', amount = ''nan'', category = ''Food'',
             description = ''''\<rparr>,
        \<lparr>expenses = [\<lparr>id_e = Some ''u1'', date = ''2024-03-01'', amount = ''nan'',
                       category = ''Food'', description = ''''\<rparr>],
         file_rows = [header, [''u1'', ''2024-03-01'', ''nan'', ''Food'', '''']]\<rparr>) \<and>
   \<not> two_decimals ''nan'' \<and> two_decimals ''-0.00'' \<and> two_decimals ''150.01''"
  by code_simp

subsection \<open>Loading\<close>

text \<open>
  C5. \<^verbatim>\<open>load\<close> can fail on a malformed row. A row that ends after a valid amount has
  its category bound to \<^verbatim>\<open>None\<close> by the \<^verbatim>\<open>DictReader\<close>, \<^verbatim>\<open>r.get("category", "")\<close>
  returns that \<^verbatim>\<open>None\<close> and not the default, and \<^verbatim>\<open>None.strip()\<close> raises
  \<^verbatim>\<open>AttributeError\<close> out of \<^verbatim>\<open>load\<close> and out of the constructor.
\<close>

theorem load_short_row_raises:
  "init (Some [header, [''x1'', ''2024-03-01'', ''12.50'']])
     = (Some AttributeError,
        \<lparr>expenses = [], file_rows = [header, [''x1'', ''2024-03-01'', ''12.50'']]\<rparr>)"
  by code_simp

subsection \<open>Listing\<close>

text \<open>
  C6. The limit \<^verbatim>\<open>0\<close> does not truncate: \<^verbatim>\<open>if limit:\<close> is false for it, and
  \<^verbatim>\<open>list_expenses(limit=0)\<close> returns both records of this tracker.
\<close>

theorem limit_zero_returns_all:
  "list_expenses None None None (Some 0)
     \<lparr>expenses = [\<lparr>id_e = Some ''a1'', date = ''2024-03-01'', amount = ''5.00'',
                    category = ''Food'', description = ''''\<rparr>,
                   \<lparr>id_e = Some ''b2'', date = ''2024-03-02'', amount = ''7.50'',
                    category = ''Bills'', description = ''x''\<rparr>],
      file_rows = [header, [''a1'', ''2024-03-01'', ''5.00'', ''Food'', ''''],
                   [''b2'', ''2024-03-02'', ''7.50'', ''Bills'', ''x'']]\<rparr>
   = Inr [\<lparr>id_e = Some ''b2'', date = ''2024-03-02'', amount = ''7.50'',
            category = ''Bills'', description = ''x''\<rparr>,
          \<lparr>id_e = Some ''a1'', date = ''2024-03-01'', amount = ''5.00'',
            category = ''Food'', description = ''''\<rparr>]"
  by code_simp

text \<open>
  C3. \<^verbatim>\<open>list_expenses\<close> fails on a record set that \<^verbatim>\<open>add_expense\<close> itself produces.
  The date \<^verbatim>\<open>"0999-01-01"\<close> is a valid date in the format; \<^verbatim>\<open>add_expense\<close> stores
  what \<^verbatim>\<open>strftime\<close> makes of it, \<^verbatim>\<open>999-01-01\<close>, and the unguarded \<^verbatim>\<open>strptime\<close> in
  \<^verbatim>\<open>list_expenses\<close> raises \<^verbatim>\<open>ValueError\<close> on that string, with no filter at all.
\<close>

theorem list_expenses_raises_after_add:
  "\<not> isl (strptime ''0999-01-01'') \<and>
   add_expense \<lparr>year = 2024, month = 5, day = 17\<rparr> ''u1'' ''5'' ''Food''
     (Some ''0999-01-01'') '''' \<lparr>expenses = [], file_rows = [header]\<rparr>
     = (Inr \<lparr>id_e = Some ''u1'', date = ''999-01-01'', amount = ''5.00'', category = ''Food'',
             description = ''''\<rparr>,
        \<lparr>expenses = [\<lparr>id_e = Some ''u1'', date = ''999-01-01'', amount = ''5.00'',
                       category = ''Food'', description = ''''\<rparr>],
         file_rows = [header, [''u1'', ''999-01-01'', ''5.00'', ''Food'', '''']]\<rparr>) \<and>
   list_expenses None None None None
     \<lparr>expenses = [\<lparr>id_e = Some ''u1'', date = ''999-01-01'', amount = ''5.00'',
                    category = ''Food'', description = ''''\<rparr>],
      file_rows = [header, [''u1'', ''999-01-01'', ''5.00'', ''Food'', '''']]\<rparr>
     = Inl ValueError"
  by code_simp

text \<open>
  On a record set whose dates all parse, \<^verbatim>\<open>list_expenses\<close> without a limit returns the
  records that match the filters, each as often as it is stored, in descending order of
  the date strings, records of equal date in their stored order.
\<close>

lemma list_loop_filter:
  assumes "\<forall>e\<in>set es. \<not> isl (strptime (date e))"
  shows "list_loop y m c es acc = Inr (acc @ filter (matches_filters y m c) es)"
  using assms
proof (induction es arbitrary: acc)
  case Nil
  show ?case by simp
next
  case (Cons e es)
  from Cons.prems obtain dt where dt: "strptime (date e) = Inr dt"
    by (cases "strptime (date e)") auto
  from Cons.prems have rest: "\<forall>e\<in>set es. \<not> isl (strptime (date e))" by simp
  show ?case
    by (simp add: dt matches_filters_def Cons.IH [OF rest] split: option.splits)
qed

lemma sort_date_desc_mset: "mset (sort_date_desc xs) = mset xs"
  by (simp add: sort_date_desc_def)

lemma sort_date_desc_sorted: "sorted_wrt (\<lambda>a b. date b \<le> date a) (sort_date_desc xs)"
proof -
  have "sorted (map date (sort_key date (rev xs)))" by (rule sorted_sort_key)
  then have "sorted_wrt (\<lambda>a b. date a \<le> date b) (sort_key date (rev xs))"
    by (simp add: sorted_wrt_map)
  then show ?thesis
    by (simp add: sort_date_desc_def sorted_wrt_rev)
qed

lemma sort_date_desc_stable:
  "filter (\<lambda>e. date e = k) (sort_date_desc xs) = filter (\<lambda>e. date e = k) xs"
proof -
  have "filter (\<lambda>e. date e = k) (sort_key date (rev xs)) = filter (\<lambda>e. date e = k) (rev xs)"
    by (rule sort_key_stable)
  then show ?thesis
    by (simp add: sort_date_desc_def rev_filter [symmetric])
qed

lemma list_expenses_filtered_sorted:
  assumes "\<forall>e\<in>set (expenses s). \<not> isl (strptime (date e))"
  shows "\<exists>res. list_expenses y m c None s = Inr res \<and>
           mset res = mset (filter (matches_filters y m c) (expenses s)) \<and>
           sorted_wrt (\<lambda>a b. date b \<le> date a) res \<and>
           (\<forall>k. filter (\<lambda>e. date e = k) res =
                filter (\<lambda>e. date e = k) (filter (matches_filters y m c) (expenses s)))"
proof -
  let ?f = "filter (matches_filters y m c) (expenses s)"
  have "list_expenses y m c None s = Inr (sort_date_desc ?f)"
    by (simp add: list_expenses_def list_loop_filter [OF assms])
  then show ?thesis
    using sort_date_desc_mset [of ?f] sort_date_desc_sorted [of ?f] sort_date_desc_stable [of _ ?f]
    by simp
qed

lemma list_expenses_empty: "list_expenses y m c limit (s\<lparr>expenses := []\<rparr>) = Inr []"
  by (simp add: list_expenses_def sort_date_desc_def slice_to_def split: option.splits)

subsection \<open>The monthly report\<close>

lemma strptime_valid:
  assumes "strptime d = Inr t"
  shows "valid_date (year t) (month t) (day t)"
  using assms
  by (auto simp: strptime_def split: list.splits prod.splits if_splits)

lemma march_2024_days:
  "list_all (\<lambda>k. strptime (strftime \<lparr>year = 2024, month = 3, day = k\<rparr>)
                    = Inr \<lparr>year = 2024, month = 3, day = k\<rparr>) [1..31]"
  by code_simp

lemma march_2024_round_trip:
  assumes "strptime d = Inr t" and "year t = 2024" and "month t = 3"
  shows "strptime (strftime t) = Inr t"
proof -
  from strptime_valid [OF assms(1)] assms(2,3) have "1 \<le> day t" and "day t \<le> 31"
    by (simp_all add: valid_date_def days_in_month_def)
  then have "day t \<in> set [1..31]" by simp
  with march_2024_days
  have "strptime (strftime \<lparr>year = 2024, month = 3, day = day t\<rparr>)
          = Inr \<lparr>year = 2024, month = 3, day = day t\<rparr>"
    unfolding list_all_iff by blast
  moreover have "t = \<lparr>year = 2024, month = 3, day = day t\<rparr>"
    using assms(2,3) by simp
  ultimately show ?thesis by simp
qed

lemma report_loop_cong:
  assumes "map (\<lambda>e. (category e, amount e)) es = map (\<lambda>e. (category e, amount e)) es'"
  shows "report_loop es totals spent = report_loop es' totals spent"
  using assms
proof (induction es arbitrary: es' totals spent)
  case Nil
  then show ?case by simp
next
  case (Cons e es)
  then obtain e' es'' where es': "es' = e' # es''" by (cases es') auto
  with Cons.prems have "category e = category e'" "amount e = amount e'"
    and "map (\<lambda>e. (category e, amount e)) es = map (\<lambda>e. (category e, amount e)) es''"
    by simp_all
  with Cons.IH [of es''] show ?case
    by (simp add: es' split: sum.splits)
qed

lemma stored_amounts:
  "(case py_float ''100.00'' of Inl _ \<Rightarrow> [] | Inr a \<Rightarrow> format_2f a) = ''100.00'' \<and>
   (case py_float ''50.005'' of Inl _ \<Rightarrow> [] | Inr a \<Rightarrow> format_2f a) = ''50.01'' \<and>
   (case py_float ''20.00'' of Inl _ \<Rightarrow> [] | Inr a \<Rightarrow> format_2f a) = ''20.00'' \<and>
   strip ''Food'' = ''Food'' \<and> strip ''Transport'' = ''Transport''"
  by code_simp

lemma add_expense_stores:
  assumes "strptime d = Inr t"
    and "(case py_float a of Inl _ \<Rightarrow> [] | Inr x \<Rightarrow> format_2f x) = stored" and "stored \<noteq> []"
  shows "expenses (snd (add_expense today u a c (Some d) x s)) =
           expenses s @ [\<lparr>id_e = Some u, date = strftime t, amount = stored,
                           category = strip c, description = strip x\<rparr>]"
  using assms
  by (auto simp: add_expense_def append_to_file_def Let_def split: sum.splits)

lemma six_orders:
  "sort_date_desc [a, b, c] = [a, b, c] \<or> sort_date_desc [a, b, c] = [a, c, b] \<or>
   sort_date_desc [a, b, c] = [b, a, c] \<or> sort_date_desc [a, b, c] = [b, c, a] \<or>
   sort_date_desc [a, b, c] = [c, a, b] \<or> sort_date_desc [a, b, c] = [c, b, a]"
  by (simp add: sort_date_desc_def)

lemma report_of_six_orders:
  "list_all
     (\<lambda>es. case report_loop es [] (Finite 0) of
              Inl _ \<Rightarrow> False
            | Inr (totals, spent) \<Rightarrow>
                round2 spent = round_double (17001 / 100) \<and>
                (let cats = map (\<lambda>(cat, vals). (cat, \<lparr>amount_of = round2 (amount_of vals),
                                                      count_of = count_of vals\<rparr>)) totals
                 in cats = [(''Food'', \<lparr>amount_of = round_double (15001 / 100), count_of = 2\<rparr>),
                            (''Transport'', \<lparr>amount_of = Finite 20, count_of = 1\<rparr>)] \<or>
                    cats = [(''Transport'', \<lparr>amount_of = Finite 20, count_of = 1\<rparr>),
                            (''Food'', \<lparr>amount_of = round_double (15001 / 100), count_of = 2\<rparr>)]))
     (map (map (\<lambda>(c, a). \<lparr>id_e = None, date = [], amount = a, category = c, description = []\<rparr>))
        [[(''Food'', ''100.00''), (''Food'', ''50.01''), (''Transport'', ''20.00'')],
         [(''Food'', ''100.00''), (''Transport'', ''20.00''), (''Food'', ''50.01'')],
         [(''Food'', ''50.01''), (''Food'', ''100.00''), (''Transport'', ''20.00'')],
         [(''Food'', ''50.01''), (''Transport'', ''20.00''), (''Food'', ''100.00'')],
         [(''Transport'', ''20.00''), (''Food'', ''100.00''), (''Food'', ''50.01'')],
         [(''Transport'', ''20.00''), (''Food'', ''50.01''), (''Food'', ''100.00'')]])"
  by code_simp

text \<open>
  C4. The example of the specification. On a tracker with no records, \<^verbatim>\<open>add_expense\<close>
  is called with the amounts 100.00 and 50.005 in the category Food and 20.00 in the
  category Transport, each with a date of March 2024. The second amount is stored as
  \<^verbatim>\<open>50.01\<close>, and \<^verbatim>\<open>monthly_report(2024, 3)\<close> returns the report with the two categories
  Food, amount 150.01 and count 2, and Transport, amount 20.00 and count 1, and the
  total 170.01, whatever the three days are and so whatever the order in which the
  amounts are summed. The amounts are the floats nearest to 150.01 and 170.01.
\<close>

theorem monthly_report_example:
  assumes "strptime d1 = Inr t1" and "year t1 = 2024" and "month t1 = 3"
    and "strptime d2 = Inr t2" and "year t2 = 2024" and "month t2 = 3"
    and "strptime d3 = Inr t3" and "year t3 = 2024" and "month t3 = 3"
    and "expenses s0 = []"
    and "s1 = snd (add_expense today1 u1 ''100.00'' ''Food'' (Some d1) x1 s0)"
    and "s2 = snd (add_expense today2 u2 ''50.005'' ''Food'' (Some d2) x2 s1)"
    and "s3 = snd (add_expense today3 u3 ''20.00'' ''Transport'' (Some d3) x3 s2)"
  shows "map amount (expenses s3) = [''100.00'', ''50.01'', ''20.00''] \<and>
         (\<exists>rep. monthly_report 2024 3 s3 = Inr rep \<and>
            report_year rep = 2024 \<and> report_month rep = 3 \<and>
            length (categories rep) = 2 \<and>
            map_of (categories rep) =
              [''Food'' \<mapsto> \<lparr>amount_of = round_double (15001 / 100), count_of = 2\<rparr>,
               ''Transport'' \<mapsto> \<lparr>amount_of = Finite 20, count_of = 1\<rparr>] \<and>
            total_spent rep = round_double (17001 / 100))"
proof -
  define e1 where "e1 = \<lparr>id_e = Some u1, date = strftime t1, amount = ''100.00'',
                          category = ''Food'', description = strip x1\<rparr>"
  define e2 where "e2 = \<lparr>id_e = Some u2, date = strftime t2, amount = ''50.01'',
                          category = ''Food'', description = strip x2\<rparr>"
  define e3 where "e3 = \<lparr>id_e = Some u3, date = strftime t3, amount = ''20.00'',
                          category = ''Transport'', description = strip x3\<rparr>"
  let ?K = "map (\<lambda>(c, a). \<lparr>id_e = None, date = [], amount = a, category = c, description = []\<rparr>)"
  let ?proj = "map (\<lambda>e. (category e, amount e))"
  define good :: "error + (string \<times> bucket) list \<times> pyfloat \<Rightarrow> bool"
    where "good = (\<lambda>r. case r of
      Inl _ \<Rightarrow> False
    | Inr (totals, spent) \<Rightarrow>
        round2 spent = round_double (17001 / 100) \<and>
        (let cats = map (\<lambda>(cat, vals). (cat, \<lparr>amount_of = round2 (amount_of vals),
                                              count_of = count_of vals\<rparr>)) totals
         in cats = [(''Food'', \<lparr>amount_of = round_double (15001 / 100), count_of = 2\<rparr>),
                    (''Transport'', \<lparr>amount_of = Finite 20, count_of = 1\<rparr>)] \<or>
            cats = [(''Transport'', \<lparr>amount_of = Finite 20, count_of = 1\<rparr>),
                    (''Food'', \<lparr>amount_of = round_double (15001 / 100), count_of = 2\<rparr>)]))"
  have stored: "expenses s3 = [e1, e2, e3]"
    using assms(10) stored_amounts
    by (simp add: assms(11-13) e1_def e2_def e3_def
        add_expense_stores [OF assms(1)] add_expense_stores [OF assms(4)]
        add_expense_stores [OF assms(7)])
  have p1: "strptime (date e1) = Inr t1"
    using march_2024_round_trip [OF assms(1-3)] by (simp add: e1_def)
  have p2: "strptime (date e2) = Inr t2"
    using march_2024_round_trip [OF assms(4-6)] by (simp add: e2_def)
  have p3: "strptime (date e3) = Inr t3"
    using march_2024_round_trip [OF assms(7-9)] by (simp add: e3_def)
  have parse: "\<forall>e\<in>set (expenses s3). \<not> isl (strptime (date e))"
    by (simp add: stored p1 p2 p3)
  have "filter (matches_filters (Some 2024) (Some 3) None) (expenses s3) = [e1, e2, e3]"
    by (simp add: stored matches_filters_def p1 p2 p3 assms(2,3,5,6,8,9))
  then have listed: "list_expenses (Some 2024) (Some 3) None None s3
                       = Inr (sort_date_desc [e1, e2, e3])"
    by (simp add: list_expenses_def list_loop_filter [OF parse])
  have six: "\<forall>es\<in>set (map ?K
        [[(''Food'', ''100.00''), (''Food'', ''50.01''), (''Transport'', ''20.00'')],
         [(''Food'', ''100.00''), (''Transport'', ''20.00''), (''Food'', ''50.01'')],
         [(''Food'', ''50.01''), (''Food'', ''100.00''), (''Transport'', ''20.00'')],
         [(''Food'', ''50.01''), (''Transport'', ''20.00''), (''Food'', ''100.00'')],
         [(''Transport'', ''20.00''), (''Food'', ''100.00''), (''Food'', ''50.01'')],
         [(''Transport'', ''20.00''), (''Food'', ''50.01''), (''Food'', ''100.00'')]]).
        good (report_loop es [] (Finite 0))"
    using report_of_six_orders unfolding list_all_iff good_def .
  have "\<exists>ps. ?proj (sort_date_desc [e1, e2, e3]) = ps \<and>
          good (report_loop (?K ps) [] (Finite 0))"
    using six_orders [of e1 e2 e3] six
    by (auto simp: e1_def e2_def e3_def)
  then obtain ps where ps: "?proj (sort_date_desc [e1, e2, e3]) = ps"
    and g: "good (report_loop (?K ps) [] (Finite 0))" by blast
  have "?proj (?K ps) = ps" by (induction ps) auto
  with ps have "report_loop (sort_date_desc [e1, e2, e3]) [] (Finite 0)
                  = report_loop (?K ps) [] (Finite 0)"
    by (intro report_loop_cong) simp
  with g have "good (report_loop (sort_date_desc [e1, e2, e3]) [] (Finite 0))" by simp
  then have "\<exists>rep. monthly_report 2024 3 s3 = Inr rep \<and>
            report_year rep = 2024 \<and> report_month rep = 3 \<and>
            length (categories rep) = 2 \<and>
            map_of (categories rep) =
              [''Food'' \<mapsto> \<lparr>amount_of = round_double (15001 / 100), count_of = 2\<rparr>,
               ''Transport'' \<mapsto> \<lparr>amount_of = Finite 20, count_of = 1\<rparr>] \<and>
            total_spent rep = round_double (17001 / 100)"
    unfolding good_def monthly_report_def listed
    by (auto simp: Let_def fun_upd_twist split: sum.splits)
  then show ?thesis by (simp add: stored e1_def e2_def e3_def)
qed

theorem monthly_report_example_witness:
  "strptime ''2024-03-05'' = Inr \<lparr>year = 2024, month = 3, day = 5\<rparr> \<and>
   strptime ''2024-03-12'' = Inr \<lparr>year = 2024, month = 3, day = 12\<rparr> \<and>
   strptime ''2024-03-09'' = Inr \<lparr>year = 2024, month = 3, day = 9\<rparr> \<and>
   (\<exists>rep. monthly_report 2024 3
             (snd (add_expense \<lparr>year = 2024, month = 5, day = 17\<rparr> ''u3'' ''20.00''
                     ''Transport'' (Some ''2024-03-09'') ''bus''
                (snd (add_expense \<lparr>year = 2024, month = 5, day = 17\<rparr> ''u2'' ''50.005''
                        ''Food'' (Some ''2024-03-12'') ''dinner''
                   (snd (add_expense \<lparr>year = 2024, month = 5, day = 17\<rparr> ''u1'' ''100.00''
                           ''Food'' (Some ''2024-03-05'') ''lunch''
                           \<lparr>expenses = [], file_rows = [header]\<rparr>)))))) = Inr rep \<and>
          map_of (categories rep) =
            [''Food'' \<mapsto> \<lparr>amount_of = round_double (15001 / 100), count_of = 2\<rparr>,
             ''Transport'' \<mapsto> \<lparr>amount_of = Finite 20, count_of = 1\<rparr>] \<and>
          total_spent rep = round_double (17001 / 100)) \<and>
   format_2f (round_double (15001 / 100)) = ''150.01'' \<and>
   format_2f (Finite 20) = ''20.00'' \<and>
   format_2f (round_double (17001 / 100)) = ''170.01''"
proof -
  have d1: "strptime ''2024-03-05'' = Inr \<lparr>year = 2024, month = 3, day = 5\<rparr>"
    and d2: "strptime ''2024-03-12'' = Inr \<lparr>year = 2024, month = 3, day = 12\<rparr>"
    and d3: "strptime ''2024-03-09'' = Inr \<lparr>year = 2024, month = 3, day = 9\<rparr>"
    by code_simp+
  have shown: "format_2f (round_double (15001 / 100)) = ''150.01'' \<and>
               format_2f (Finite 20) = ''20.00'' \<and>
               format_2f (round_double (17001 / 100)) = ''170.01''"
    by code_simp
  have y: "year \<lparr>year = 2024, month = 3, day = k\<rparr> = 2024"
    and m: "month \<lparr>year = 2024, month = 3, day = k\<rparr> = 3" for k
    by simp_all
  have e: "expenses \<lparr>expenses = [], file_rows = [header]\<rparr> = []" by simp
  from monthly_report_example [OF d1 y m d2 y m d3 y m e refl refl refl] d1 d2 d3 shown
  show ?thesis by blast
qed

subsection \<open>Exports\<close>










text \<open>
  C9. The round trip loses a total. After \<^verbatim>\<open>add_expense\<close> has accepted the amount
  \<^verbatim>\<open>"nan"\<close> (the defect of C7), the report of that month has the total NaN for the
  category, the tabular export writes \<^verbatim>\<open>nan\<close>, and the total parsed back is NaN again,
  which is within 0.01 of nothing, itself included. The category with a finite total
  comes back as it was.
\<close>

theorem tabular_round_trip_loses_nan:
  "snd (add_expense \<lparr>year = 2024, month = 5, day = 17\<rparr> ''u2'' ''20'' ''Transport''
          (Some ''2024-03-02'') ''''
          (snd (add_expense \<lparr>year = 2024, month = 5, day = 17\<rparr> ''u1'' ''nan'' ''Food''
                  (Some ''2024-03-01'') '''' \<lparr>expenses = [], file_rows = [header]\<rparr>)))
     = \<lparr>expenses = [\<lparr>id_e = Some ''u1'', date = ''2024-03-01'', amount = ''nan'',
                       category = ''Food'', description = ''''\<rparr>,
                      \<lparr>id_e = Some ''u2'', date = ''2024-03-02'', amount = ''20.00'',
                       category = ''Transport'', description = ''''\<rparr>],
         file_rows = [header, [''u1'', ''2024-03-01'', ''nan'', ''Food'', ''''],
                      [''u2'', ''2024-03-02'', ''20.00'', ''Transport'', '''']]\<rparr> \<and>
   monthly_report 2024 3
     \<lparr>expenses = [\<lparr>id_e = Some ''u1'', date = ''2024-03-01'', amount = ''nan'',
                    category = ''Food'', description = ''''\<rparr>,
                   \<lparr>id_e = Some ''u2'', date = ''2024-03-02'', amount = ''20.00'',
                    category = ''Transport'', description = ''''\<rparr>],
      file_rows = [header, [''u1'', ''2024-03-01'', ''nan'', ''Food'', ''''],
                   [''u2'', ''2024-03-02'', ''20.00'', ''Transport'', '''']]\<rparr>
     = Inr \<lparr>report_year = 2024, report_month = 3,
            categories = [(''Transport'', \<lparr>amount_of = Finite 20, count_of = 1\<rparr>),
                          (''Food'', \<lparr>amount_of = NaN, count_of = 1\<rparr>)],
            total_spent = NaN\<rparr> \<and>
   export_report_csv
     \<lparr>report_year = 2024, report_month = 3,
      categories = [(''Transport'', \<lparr>amount_of = Finite 20, count_of = 1\<rparr>),
                    (''Food'', \<lparr>amount_of = NaN, count_of = 1\<rparr>)],
      total_spent = NaN\<rparr> ''report_2024-03.csv''
     = (''report_2024-03.csv'',
        [[''Category'', ''Total Amount'', ''Count''], [''Transport'', ''20.00'', ''1''],
         [''Food'', ''nan'', ''1''], [], [''Total'', ''nan'', '''']]) \<and>
   parse_tabular
     [[''Category'', ''Total Amount'', ''Count''], [''Transport'', ''20.00'', ''1''],
      [''Food'', ''nan'', ''1''], [], [''Total'', ''nan'', '''']]
     = Some [(''Transport'', \<lparr>amount_of = Finite 20, count_of = 1\<rparr>),
             (''Food'', \<lparr>amount_of = NaN, count_of = 1\<rparr>)] \<and>
   \<not> same_totals
       [(''Transport'', \<lparr>amount_of = Finite 20, count_of = 1\<rparr>),
        (''Food'', \<lparr>amount_of = NaN, count_of = 1\<rparr>)]
       [(''Transport'', \<lparr>amount_of = Finite 20, count_of = 1\<rparr>),
        (''Food'', \<lparr>amount_of = NaN, count_of = 1\<rparr>)] \<and>
   within_cent (Finite 20) (Finite 20) \<and> \<not> within_cent NaN NaN"
  by code_simp
















end
